theory Spec2Isabelle
  imports Main "HOL-Library.Word"
begin

unbundle bit_operations_syntax

section \<open>Strings and bytes\<close>

text \<open>
  A Go \<^verbatim>\<open>string\<close> and a \<^verbatim>\<open>[]byte\<close> are sequences of bytes; both are modelled as
  \<^typ>\<open>string\<close>, a list of 8-bit characters. \<open>byte c\<close> is the numeric value of a byte.
\<close>

definition byte :: "char \<Rightarrow> int" where
  "byte c = of_char c"

section \<open>Package \<^verbatim>\<open>unicode/utf8\<close>: decoding the first rune of a string\<close>

definition RuneSelf :: int where
  "RuneSelf = 0x80"

definition RuneError :: int where
  "RuneError = 0xFFFD"

text \<open>
  The table \<^verbatim>\<open>first\<close> of the decoder: \<^verbatim>\<open>as = 0xF0\<close> for ASCII, \<^verbatim>\<open>xx = 0xF1\<close> for an
  invalid first byte, otherwise the index of the accept range in the high nibble and the
  length of the sequence in the low three bits.
\<close>

definition first :: "int \<Rightarrow> int" where
  "first b =
     (if b < 0x80 then 0xF0
      else if b < 0xC2 then 0xF1
      else if b < 0xE0 then 0x02
      else if b = 0xE0 then 0x13
      else if b < 0xED then 0x03
      else if b = 0xED then 0x23
      else if b < 0xF0 then 0x03
      else if b = 0xF0 then 0x34
      else if b < 0xF4 then 0x04
      else if b = 0xF4 then 0x44
      else 0xF1)"

text \<open>The table \<^verbatim>\<open>acceptRanges\<close>: the bounds \<open>(lo, hi)\<close> of the second byte.\<close>

definition acceptRanges :: "int \<Rightarrow> int \<times> int" where
  "acceptRanges k =
     (if k = 0 then (0x80, 0xBF)
      else if k = 1 then (0xA0, 0xBF)
      else if k = 2 then (0x80, 0x9F)
      else if k = 3 then (0x90, 0xBF)
      else if k = 4 then (0x80, 0x8F)
      else (0, 0))"

text \<open>
  \<^verbatim>\<open>utf8.DecodeRuneInString\<close>: the rune at the head of \<open>s\<close> and its width in bytes;
  \<open>(RuneError, 0)\<close> for the empty string and \<open>(RuneError, 1)\<close> for an invalid encoding.
\<close>

definition DecodeRuneInString :: "string \<Rightarrow> int \<times> nat" where
  "DecodeRuneInString s =
     (let n = length s in
      if n < 1 then (RuneError, 0)
      else
        let s0 = byte (s ! 0); x = first s0 in
        if x \<ge> 0xF0 then ((if x AND 1 = 1 then RuneError else s0), 1)
        else
          let sz = x AND 7; accept = acceptRanges (drop_bit 4 x) in
          if int n < sz then (RuneError, 1)
          else
            let s1 = byte (s ! 1) in
            if s1 < fst accept \<or> snd accept < s1 then (RuneError, 1)
            else if sz \<le> 2 then (push_bit 6 (s0 AND 0x1F) OR (s1 AND 0x3F), 2)
            else
              let s2 = byte (s ! 2) in
              if s2 < 0x80 \<or> 0xBF < s2 then (RuneError, 1)
              else if sz \<le> 3 then
                (push_bit 12 (s0 AND 0x0F) OR push_bit 6 (s1 AND 0x3F) OR (s2 AND 0x3F), 3)
              else
                let s3 = byte (s ! 3) in
                if s3 < 0x80 \<or> 0xBF < s3 then (RuneError, 1)
                else
                  (push_bit 18 (s0 AND 0x07) OR push_bit 12 (s1 AND 0x3F)
                     OR push_bit 6 (s2 AND 0x3F) OR (s3 AND 0x3F), 4))"

section \<open>JSON string escaping\<close>

text \<open>The constant \<^verbatim>\<open>_hex\<close> of the source.\<close>

definition hex :: string where
  "hex = ''0123456789abcdef''"

text \<open>
  \<^verbatim>\<open>tryAddRuneSelf\<close> appends \<open>b\<close>, escaped where needed, when it is a single-byte
  character; the flag tells whether it did.
\<close>

definition tryAddRuneSelf :: "string \<Rightarrow> char \<Rightarrow> string \<times> bool" where
  "tryAddRuneSelf buf b =
     (if byte b \<ge> RuneSelf then (buf, False)
      else if 0x20 \<le> byte b \<and> b \<noteq> CHR 0x5C \<and> b \<noteq> CHR 0x22 then (buf @ [b], True)
      else if b = CHR 0x5C \<or> b = CHR 0x22 then (buf @ [CHR 0x5C, b], True)
      else if b = CHR 0x0A then (buf @ [CHR 0x5C, CHR ''n''], True)
      else if b = CHR 0x0D then (buf @ [CHR 0x5C, CHR ''r''], True)
      else if b = CHR 0x09 then (buf @ [CHR 0x5C, CHR ''t''], True)
      else
        (buf @ [CHR 0x5C, CHR ''u'', CHR ''0'', CHR ''0'']
             @ [hex ! nat (drop_bit 4 (byte b)), hex ! nat (byte b AND 0xF)], True))"

definition tryAppendRuneError :: "string \<Rightarrow> int \<Rightarrow> nat \<Rightarrow> string \<times> bool" where
  "tryAppendRuneError buf r wid =
     (if r = RuneError \<and> wid = 1
      then (buf @ [CHR 0x5C, CHR ''u'', CHR ''f'', CHR ''f'', CHR ''f'', CHR ''d''], True)
      else (buf, False))"

lemma DecodeRuneInString_size:
  "s \<noteq> [] \<Longrightarrow> 1 \<le> snd (DecodeRuneInString s)"
  by (simp add: DecodeRuneInString_def Let_def)

text \<open>
  The loop of \<^verbatim>\<open>safeAppendString\<close>, with the index \<open>i\<close> as an argument:
  \<^verbatim>\<open>s[i:]\<close> is \<open>drop i s\<close> and \<^verbatim>\<open>s[i:i+size]\<close> is \<open>take size (drop i s)\<close>.
\<close>

function safeAppendString_loop :: "string \<Rightarrow> string \<Rightarrow> nat \<Rightarrow> string" where
  "safeAppendString_loop buf s i =
     (if i < length s then
        (if snd (tryAddRuneSelf buf (s ! i))
         then safeAppendString_loop (fst (tryAddRuneSelf buf (s ! i))) s (i + 1)
         else
           let buf1 = fst (tryAddRuneSelf buf (s ! i));
               r = fst (DecodeRuneInString (drop i s));
               wid = snd (DecodeRuneInString (drop i s))
           in
             if snd (tryAppendRuneError buf1 r wid)
             then safeAppendString_loop (fst (tryAppendRuneError buf1 r wid)) s (i + 1)
             else safeAppendString_loop
                    (fst (tryAppendRuneError buf1 r wid) @ take wid (drop i s)) s (i + wid))
      else buf)"
  by pat_completeness auto
termination
proof (relation "measure (\<lambda>(buf, s, i). length s - i)")
  show "wf (measure (\<lambda>(buf, s, i). length s - i))"
    by simp
next
  fix buf :: string and s :: string and i :: nat
  assume "i < length s"
  then show "((fst (tryAddRuneSelf buf (s ! i)), s, i + 1), (buf, s, i))
               \<in> measure (\<lambda>(buf, s, i). length s - i)"
    by simp
next
  fix buf :: string and s :: string and i :: nat and x xa xb
  assume "i < length s"
  then show "((fst (tryAppendRuneError x xa xb), s, i + 1), (buf, s, i))
               \<in> measure (\<lambda>(buf, s, i). length s - i)"
    by simp
next
  fix buf :: string and s :: string and i :: nat and x xa xb
  assume "i < length s" and "xb = snd (DecodeRuneInString (drop i s))"
  moreover from \<open>i < length s\<close> have "1 \<le> snd (DecodeRuneInString (drop i s))"
    by (intro DecodeRuneInString_size) simp
  ultimately show "((fst (tryAppendRuneError x xa xb) @ take xb (drop i s), s, i + xb), (buf, s, i))
               \<in> measure (\<lambda>(buf, s, i). length s - i)"
    by simp
qed

declare safeAppendString_loop.simps [simp del]

definition safeAppendString :: "string \<Rightarrow> string \<Rightarrow> string" where
  "safeAppendString buf s = safeAppendString_loop buf s 0"

section \<open>Decimal digits\<close>

text \<open>
  The decimal digits of a number that is not negative, most significant first. Both \<^verbatim>\<open>time.appendInt\<close>
  and \<^verbatim>\<open>strconv.AppendInt\<close> (base 10) assemble them by repeated division by ten.
\<close>

definition digit :: "int \<Rightarrow> char" where
  "digit d = ''0123456789'' ! nat d"

function decimal :: "int \<Rightarrow> string" where
  "decimal n = (if n < 10 then [digit n] else decimal (n div 10) @ [digit (n mod 10)])"
  by pat_completeness auto
termination
  by (relation "measure nat") auto

declare decimal.simps [simp del]

section \<open>Package \<^verbatim>\<open>strconv\<close>\<close>

text \<open>
  \<^verbatim>\<open>strconv.AppendInt(buf, i, 10)\<close> for an \<^verbatim>\<open>int64\<close>: a minus sign and the digits of the
  negated value (negated as a 64-bit unsigned number) when \<open>i\<close> is negative.
\<close>

type_synonym int64 = "64 word"

definition AppendInt :: "string \<Rightarrow> int64 \<Rightarrow> string" where
  "AppendInt buf i =
     (if i <s 0 then buf @ ''-'' @ decimal (uint (- i)) else buf @ decimal (uint i))"

section \<open>Package \<^verbatim>\<open>time\<close>\<close>

text \<open>
  A \<^verbatim>\<open>time.Time\<close> is an instant together with a location. \<open>sec\<close> counts the seconds
  since January 1, year 1, 00:00:00 UTC (the method \<^verbatim>\<open>sec()\<close>), \<open>nsec\<close> is the
  nanosecond within the second (in the range 0 to 999999999), and \<open>offset\<close> is the offset
  of the location at that instant, in seconds east of UTC (0 for \<^verbatim>\<open>time.UTC\<close>).
\<close>

record Time =
  sec :: int
  nsec :: int
  offset :: int

definition IsZero :: "Time \<Rightarrow> bool" where
  "IsZero t = (sec t = 0 \<and> nsec t = 0)"

text \<open>The zero value of \<^verbatim>\<open>time.Time\<close>: January 1, year 1, 00:00:00 UTC.\<close>

definition zeroTime :: Time where
  "zeroTime = \<lparr>sec = 0, nsec = 0, offset = 0\<rparr>"

definition isLeap :: "int \<Rightarrow> bool" where
  "isLeap year = (year mod 4 = 0 \<and> (year mod 100 \<noteq> 0 \<or> year mod 400 = 0))"

definition daysBefore :: "int list" where
  "daysBefore = [0, 31, 59, 90, 120, 151, 181, 212, 243, 273, 304, 334, 365]"

text \<open>
  \<^verbatim>\<open>absDate\<close>: year, month and day of the month of a count of seconds. The library counts
  from an absolute epoch, a multiple of 400 years before year 1, so that the count is
  unsigned; here the count is from year 1 and may be negative, \<open>div\<close> rounds
  down, and the cycles of 400, 100, 4 and 1 years are cut off in the library's order.
  \<^verbatim>\<open>n >> 2\<close> is \<open>n div 4\<close>.
\<close>

definition absDate :: "int \<Rightarrow> int \<times> int \<times> int" where
  "absDate asec =
     (let d = asec div 86400;
          n = d div 146097;
          y = 400 * n;
          d = d - 146097 * n;
          n = d div 36524;
          n = n - n div 4;
          y = y + 100 * n;
          d = d - 36524 * n;
          n = d div 1461;
          y = y + 4 * n;
          d = d - 1461 * n;
          n = d div 365;
          n = n - n div 4;
          y = y + n;
          d = d - 365 * n;
          year = y + 1;
          day = d
      in
        if isLeap year \<and> day = 31 + 29 - 1 then (year, 2, 29)
        else
          let day = (if isLeap year \<and> day > 31 + 29 - 1 then day - 1 else day);
              month = day div 31;
              endd = daysBefore ! nat (month + 1)
          in
            if day \<ge> endd then (year, month + 1 + 1, day - endd + 1)
            else (year, month + 1, day - daysBefore ! nat month + 1))"

text \<open>\<^verbatim>\<open>absClock\<close>: hour, minute and second within the day.\<close>

definition absClock :: "int \<Rightarrow> int \<times> int \<times> int" where
  "absClock asec =
     (let s = asec mod 86400;
          hour = s div 3600;
          s = s - hour * 3600;
          minute = s div 60;
          s = s - minute * 60
      in (hour, minute, s))"

text \<open>
  \<^verbatim>\<open>time.appendInt\<close>: the decimal form of \<open>x\<close>, after a minus sign when it is negative,
  padded with zeros on the left to at least \<open>width\<close> digits.
\<close>

definition appendInt :: "string \<Rightarrow> int \<Rightarrow> nat \<Rightarrow> string" where
  "appendInt b x width =
     (let b = (if x < 0 then b @ ''-'' else b);
          ds = decimal \<bar>x\<bar>
      in b @ replicate (width - length ds) (CHR ''0'') @ ds)"

text \<open>
  \<^verbatim>\<open>time.formatNano\<close>: the nine digits of the nanoseconds go into a buffer, of which the
  first \<open>n\<close> are kept; with \<open>trim\<close>, trailing zeros are dropped from them, and nothing at
  all is appended (not even the point) when none is left.
\<close>

fun nanoDigits :: "nat \<Rightarrow> int \<Rightarrow> string" where
  "nanoDigits k u = (if k = 0 then [] else nanoDigits (k - 1) (u div 10) @ [digit (u mod 10)])"

fun trimZeros :: "nat \<Rightarrow> string \<Rightarrow> nat" where
  "trimZeros n buf = (if n > 0 \<and> buf ! (n - 1) = CHR ''0'' then trimZeros (n - 1) buf else n)"

declare nanoDigits.simps [simp del] trimZeros.simps [simp del]

definition formatNano :: "string \<Rightarrow> int \<Rightarrow> nat \<Rightarrow> bool \<Rightarrow> string" where
  "formatNano b nanosec n trim =
     (let buf = nanoDigits 9 nanosec;
          n = (if n > 9 then 9 else n);
          n = (if trim then trimZeros n buf else n)
      in if trim \<and> n = 0 then b else b @ ''.'' @ take n buf)"

text \<open>
  The run of equal digits \<open>c\<close> at the head of a layout, as \<^verbatim>\<open>nextStdChunk\<close> measures it
  after a point.
\<close>

fun digitRun :: "char \<Rightarrow> string \<Rightarrow> nat" where
  "digitRun c [] = 0"
| "digitRun c (x # xs) = (if x = c then Suc (digitRun c xs) else 0)"

definition isDigit :: "string \<Rightarrow> nat \<Rightarrow> bool" where
  "isDigit s i = (i < length s \<and> byte (CHR ''0'') \<le> byte (s ! i) \<and> byte (s ! i) \<le> byte (CHR ''9''))"

text \<open>
  \<^verbatim>\<open>Time.AppendFormat\<close>. The layout is read from the left as \<^verbatim>\<open>nextStdChunk\<close> reads it:
  \<^verbatim>\<open>2006\<close> is the year in at least four digits, \<^verbatim>\<open>01\<close>, \<^verbatim>\<open>02\<close>, \<^verbatim>\<open>15\<close>, \<^verbatim>\<open>04\<close> and
  \<^verbatim>\<open>05\<close> are month, day, hour, minute and second in two digits, a point followed by a run
  of \<^verbatim>\<open>0\<close>s or of \<^verbatim>\<open>9\<close>s that no further digit follows is the fraction of the second
  (a run of \<^verbatim>\<open>9\<close>s trims trailing zeros), and any other byte is copied. These are the
  layout elements the package uses; the other elements of the library (names of months
  and days, time zones, 12-hour clock, unpadded fields) are not modelled.
\<close>

function AppendFormat_loop ::
  "string \<Rightarrow> int \<times> int \<times> int \<Rightarrow> int \<times> int \<times> int \<Rightarrow> int \<Rightarrow> string \<Rightarrow> string" where
  "AppendFormat_loop b date clock nanosec layout =
     (if layout = [] then b
        else if take 4 layout = ''2006'' then
          AppendFormat_loop (appendInt b (fst date) 4) date clock nanosec (drop 4 layout)
        else if take 2 layout = ''01'' then
          AppendFormat_loop (appendInt b (fst (snd date)) 2) date clock nanosec (drop 2 layout)
        else if take 2 layout = ''02'' then
          AppendFormat_loop (appendInt b (snd (snd date)) 2) date clock nanosec (drop 2 layout)
        else if take 2 layout = ''15'' then
          AppendFormat_loop (appendInt b (fst clock) 2) date clock nanosec (drop 2 layout)
        else if take 2 layout = ''04'' then
          AppendFormat_loop (appendInt b (fst (snd clock)) 2) date clock nanosec (drop 2 layout)
        else if take 2 layout = ''05'' then
          AppendFormat_loop (appendInt b (snd (snd clock)) 2) date clock nanosec (drop 2 layout)
        else if hd layout = CHR ''.'' \<and> 1 < length layout
                \<and> (layout ! 1 = CHR ''0'' \<or> layout ! 1 = CHR ''9'')
                \<and> \<not> isDigit layout (1 + digitRun (layout ! 1) (tl layout))
        then
          AppendFormat_loop
            (formatNano b nanosec (digitRun (layout ! 1) (tl layout)) (layout ! 1 = CHR ''9''))
            date clock nanosec (drop (1 + digitRun (layout ! 1) (tl layout)) layout)
        else AppendFormat_loop (b @ [hd layout]) date clock nanosec (tl layout))"
  by pat_completeness auto
termination
  by (relation "measure (\<lambda>(b, date, clock, nanosec, layout). length layout)") auto

declare AppendFormat_loop.simps [simp del]

text \<open>
  \<open>date\<close> is (year, month, day) and \<open>clock\<close> is (hour, minute, second): the fields of the
  time in its own location, that is, of the instant shifted by \<open>offset\<close>.
\<close>

definition AppendFormat :: "string \<Rightarrow> Time \<Rightarrow> string \<Rightarrow> string" where
  "AppendFormat b t layout =
     AppendFormat_loop b (absDate (sec t + offset t)) (absClock (sec t + offset t)) (nsec t) layout"

section \<open>Packages \<^verbatim>\<open>unicode\<close> and \<^verbatim>\<open>strings\<close>: trimming white space\<close>

text \<open>\<^verbatim>\<open>unicode.IsSpace\<close>: the code points with the Unicode property White_Space.\<close>

definition IsSpace :: "int \<Rightarrow> bool" where
  "IsSpace r =
     (if r \<le> 0xFF then
        r = 0x09 \<or> r = 0x0A \<or> r = 0x0B \<or> r = 0x0C \<or> r = 0x0D \<or> r = 0x20 \<or> r = 0x85 \<or> r = 0xA0
      else
        r = 0x1680 \<or> (0x2000 \<le> r \<and> r \<le> 0x200A) \<or> r = 0x2028 \<or> r = 0x2029 \<or> r = 0x202F
          \<or> r = 0x205F \<or> r = 0x3000)"

text \<open>\<^verbatim>\<open>utf8.RuneStart\<close>: the byte is not a continuation byte.\<close>

definition RuneStart :: "char \<Rightarrow> bool" where
  "RuneStart b = (byte b AND 0xC0 \<noteq> 0x80)"

text \<open>
  \<^verbatim>\<open>utf8.DecodeLastRuneInString\<close>: the last rune of \<open>s\<close> and its width. It looks back at
  most \<^verbatim>\<open>UTFMax = 4\<close> bytes for the start of the rune; the index \<open>start\<close> is an \<open>int\<close>,
  as in the source, where it may reach \<open>-1\<close>.
\<close>

function runeStartBack :: "string \<Rightarrow> int \<Rightarrow> int \<Rightarrow> int" where
  "runeStartBack s lim start =
     (if start \<ge> lim then
        (if RuneStart (s ! nat start) then start else runeStartBack s lim (start - 1))
      else start)"
  by pat_completeness auto
termination
  by (relation "measure (\<lambda>(s, lim, start). nat (start - lim + 1))") auto

declare runeStartBack.simps [simp del]

definition DecodeLastRuneInString :: "string \<Rightarrow> int \<times> nat" where
  "DecodeLastRuneInString s =
     (let e = int (length s) in
      if e = 0 then (RuneError, 0)
      else
        let start = e - 1; r = byte (s ! nat start) in
        if r < RuneSelf then (r, 1)
        else
          let lim = e - 4;
              lim = (if lim < 0 then 0 else lim);
              start = runeStartBack s lim (start - 1);
              start = (if start < 0 then 0 else start);
              r = fst (DecodeRuneInString (drop (nat start) s));
              wid = snd (DecodeRuneInString (drop (nat start) s))
          in if start + int wid \<noteq> e then (RuneError, 1) else (r, wid))"

lemma runeStartBack_le: "runeStartBack s lim start \<le> start"
  by (induction s lim start rule: runeStartBack.induct)
     (subst runeStartBack.simps, auto)

lemma DecodeLastRuneInString_size:
  assumes "s \<noteq> []"
  shows "1 \<le> snd (DecodeLastRuneInString s)"
proof -
  from assms have "1 \<le> int (length s)"
    by (cases s) simp_all
  then show ?thesis
    using runeStartBack_le [of s 0 "int (length s) - 2"]
      runeStartBack_le [of s "int (length s) - 4" "int (length s) - 2"]
    by (auto simp: DecodeLastRuneInString_def Let_def)
qed

text \<open>
  \<^verbatim>\<open>strings.TrimLeftFunc(s, unicode.IsSpace)\<close>: \<^verbatim>\<open>indexFunc\<close> ranges over the runes of
  \<open>s\<close> and stops at the first that is not a space; the result is the rest of the string
  from there, or the empty string when there is none.
\<close>

function TrimLeftSpace :: "string \<Rightarrow> string" where
  "TrimLeftSpace s =
     (if s = [] then []
      else if IsSpace (fst (DecodeRuneInString s))
      then TrimLeftSpace (drop (snd (DecodeRuneInString s)) s)
      else s)"
  by pat_completeness auto
termination
proof (relation "measure length")
  show "wf (measure length)"
    by simp
next
  fix s :: string
  assume "s \<noteq> []"
  moreover from this have "1 \<le> snd (DecodeRuneInString s)"
    by (rule DecodeRuneInString_size)
  ultimately show "(drop (snd (DecodeRuneInString s)) s, s) \<in> measure length"
    by simp
qed

declare TrimLeftSpace.simps [simp del]

text \<open>
  \<^verbatim>\<open>lastIndexFunc(s, unicode.IsSpace, false)\<close>: the index of the last rune that is not a
  space, or \<open>-1\<close> when there is none. The loop looks at the last rune of \<^verbatim>\<open>s[0:i]\<close>, from
  \<^verbatim>\<open>i = len(s)\<close> down; the argument of the function is that prefix, so \<open>i\<close> is its length.
\<close>

function lastIndexFunc :: "string \<Rightarrow> int" where
  "lastIndexFunc s =
     (if length s > 0 then
        (if IsSpace (fst (DecodeLastRuneInString s))
         then lastIndexFunc (take (length s - snd (DecodeLastRuneInString s)) s)
         else int (length s - snd (DecodeLastRuneInString s)))
      else - 1)"
  by pat_completeness auto
termination
proof (relation "measure length")
  show "wf (measure length)"
    by simp
next
  fix s :: string
  assume "0 < length s"
  then have "1 \<le> snd (DecodeLastRuneInString s)"
    by (intro DecodeLastRuneInString_size) auto
  with \<open>0 < length s\<close>
  show "(take (length s - snd (DecodeLastRuneInString s)) s, s) \<in> measure length"
    by simp
qed

declare lastIndexFunc.simps [simp del]

text \<open>\<^verbatim>\<open>strings.TrimRightFunc(s, unicode.IsSpace)\<close>.\<close>

definition TrimRightSpace :: "string \<Rightarrow> string" where
  "TrimRightSpace s =
     (let i = lastIndexFunc s;
          i = (if i \<ge> 0 \<and> byte (s ! nat i) \<ge> RuneSelf
               then i + int (snd (DecodeRuneInString (drop (nat i) s)))
               else i + 1)
      in take (nat i) s)"

text \<open>
  \<^verbatim>\<open>strings.TrimSpace\<close> removes the leading and the trailing white space: the result of
  \<^verbatim>\<open>TrimFunc(s, unicode.IsSpace)\<close>, to which the library's fast path for ASCII is equal.
\<close>

definition TrimSpace :: "string \<Rightarrow> string" where
  "TrimSpace s = TrimRightSpace (TrimLeftSpace s)"

section \<open>Package \<^verbatim>\<open>encoding/base64\<close>\<close>

text \<open>The alphabet \<^verbatim>\<open>encodeStd\<close> of \<^verbatim>\<open>base64.StdEncoding\<close>; its padding character is \<^verbatim>\<open>=\<close>.\<close>

definition encodeStd :: string where
  "encodeStd = ''ABCDEFGHIJKLMNOPQRSTUVWXYZabcdefghijklmnopqrstuvwxyz0123456789+/''"

definition encode :: "int \<Rightarrow> char" where
  "encode v = encodeStd ! nat (v AND 0x3F)"

text \<open>
  \<^verbatim>\<open>StdEncoding.EncodeToString\<close>: every three bytes of the source give four characters; a
  remainder of one or two bytes gives two or three characters and is padded to four.
\<close>

fun EncodeToString :: "string \<Rightarrow> string" where
  "EncodeToString (s0 # s1 # s2 # src) =
     (let val = push_bit 16 (byte s0) OR push_bit 8 (byte s1) OR byte s2 in
      [encode (drop_bit 18 val), encode (drop_bit 12 val), encode (drop_bit 6 val), encode val]
        @ EncodeToString src)"
| "EncodeToString [s0, s1] =
     (let val = push_bit 16 (byte s0) OR push_bit 8 (byte s1) in
      [encode (drop_bit 18 val), encode (drop_bit 12 val), encode (drop_bit 6 val), CHR ''=''])"
| "EncodeToString [s0] =
     (let val = push_bit 16 (byte s0) in
      [encode (drop_bit 18 val), encode (drop_bit 12 val), CHR ''='', CHR ''=''])"
| "EncodeToString [] = []"

section \<open>Package \<^verbatim>\<open>crypto/sha1\<close>\<close>

text \<open>
  The SHA-1 hash of FIPS 180-4 on strings of bytes, with 32-bit words: the message is
  padded with the byte 0x80, zero bytes up to 56 modulo 64, and its length in bits as a
  64-bit big-endian number; each block of 64 bytes updates the five words of the state.
\<close>

type_synonym uint32 = "32 word"

definition RotateLeft32 :: "uint32 \<Rightarrow> nat \<Rightarrow> uint32" where
  "RotateLeft32 x k = push_bit k x OR drop_bit (32 - k) x"

definition sha1_f :: "nat \<Rightarrow> uint32 \<Rightarrow> uint32 \<Rightarrow> uint32 \<Rightarrow> uint32" where
  "sha1_f t b c d =
     (if t < 20 then (b AND c) OR (NOT b AND d)
      else if t < 40 then b XOR c XOR d
      else if t < 60 then ((b OR c) AND d) OR (b AND c)
      else b XOR c XOR d)"

definition sha1_K :: "nat \<Rightarrow> uint32" where
  "sha1_K t =
     (if t < 20 then 0x5A827999
      else if t < 40 then 0x6ED9EBA1
      else if t < 60 then 0x8F1BBCDC
      else 0xCA62C1D6)"

text \<open>Four bytes as a big-endian word, and back.\<close>

definition be32 :: "string \<Rightarrow> uint32" where
  "be32 p =
     push_bit 24 (word_of_int (byte (p ! 0))) OR push_bit 16 (word_of_int (byte (p ! 1)))
       OR push_bit 8 (word_of_int (byte (p ! 2))) OR word_of_int (byte (p ! 3))"

definition PutUint32 :: "uint32 \<Rightarrow> string" where
  "PutUint32 v =
     [char_of (uint (drop_bit 24 v)), char_of (uint (drop_bit 16 v)),
      char_of (uint (drop_bit 8 v)), char_of (uint v)]"

definition PutUint64 :: "64 word \<Rightarrow> string" where
  "PutUint64 v =
     [char_of (uint (drop_bit 56 v)), char_of (uint (drop_bit 48 v)),
      char_of (uint (drop_bit 40 v)), char_of (uint (drop_bit 32 v)),
      char_of (uint (drop_bit 24 v)), char_of (uint (drop_bit 16 v)),
      char_of (uint (drop_bit 8 v)), char_of (uint v)]"

text \<open>The message schedule: the sixteen words of the block, extended to eighty.\<close>

fun sha1_schedule :: "nat \<Rightarrow> uint32 list \<Rightarrow> uint32 list" where
  "sha1_schedule 0 w = w"
| "sha1_schedule (Suc k) w =
     sha1_schedule k
       (w @ [RotateLeft32
               (w ! (length w - 3) XOR w ! (length w - 8) XOR w ! (length w - 14)
                  XOR w ! (length w - 16)) 1])"

type_synonym sha1_state = "uint32 \<times> uint32 \<times> uint32 \<times> uint32 \<times> uint32"

fun sha1_rounds :: "nat \<Rightarrow> uint32 list \<Rightarrow> sha1_state \<Rightarrow> sha1_state" where
  "sha1_rounds t [] s = s"
| "sha1_rounds t (wt # w) (a, b, c, d, e) =
     sha1_rounds (Suc t) w
       (RotateLeft32 a 5 + sha1_f t b c d + e + wt + sha1_K t, a, RotateLeft32 b 30, c, d)"

definition sha1_block :: "sha1_state \<Rightarrow> string \<Rightarrow> sha1_state" where
  "sha1_block h p =
     (case h of (h0, h1, h2, h3, h4) \<Rightarrow>
        (case sha1_rounds 0
                (sha1_schedule 64 (map (\<lambda>i. be32 (take 4 (drop (4 * i) p))) [0..<16])) h of
           (a, b, c, d, e) \<Rightarrow> (h0 + a, h1 + b, h2 + c, h3 + d, h4 + e)))"

function sha1_blocks :: "sha1_state \<Rightarrow> string \<Rightarrow> sha1_state" where
  "sha1_blocks h p =
     (if length p \<ge> 64 then sha1_blocks (sha1_block h (take 64 p)) (drop 64 p) else h)"
  by pat_completeness auto
termination
  by (relation "measure (\<lambda>(h, p). length p)") auto

declare sha1_blocks.simps [simp del]

definition sha1_pad :: "string \<Rightarrow> string" where
  "sha1_pad m =
     m @ [CHR 0x80]
       @ replicate (if length m mod 64 < 56 then 55 - length m mod 64 else 119 - length m mod 64)
           (CHR 0x00)
       @ PutUint64 (push_bit 3 (word_of_nat (length m)))"

definition sha1_init :: sha1_state where
  "sha1_init = (0x67452301, 0xEFCDAB89, 0x98BADCFE, 0x10325476, 0xC3D2E1F0)"

definition sha1_Sum :: "string \<Rightarrow> string" where
  "sha1_Sum m =
     (case sha1_blocks sha1_init (sha1_pad m) of
        (h0, h1, h2, h3, h4) \<Rightarrow>
          PutUint32 h0 @ PutUint32 h1 @ PutUint32 h2 @ PutUint32 h3 @ PutUint32 h4)"

text \<open>
  A \<^verbatim>\<open>hash.Hash\<close> made by \<^verbatim>\<open>sha1.New\<close>, as its interface describes it: \<^verbatim>\<open>Write\<close> adds
  data to the running hash, \<^verbatim>\<open>Sum\<close> appends the hash of the data written so far to its
  argument without changing the state, \<^verbatim>\<open>Reset\<close> empties it. The state is the data written
  so far.
\<close>

type_synonym Hash = string

definition sha1_New :: Hash where
  "sha1_New = []"

definition Hash_Write :: "Hash \<Rightarrow> string \<Rightarrow> Hash" where
  "Hash_Write h p = h @ p"

definition Hash_Sum :: "Hash \<Rightarrow> string \<Rightarrow> string" where
  "Hash_Sum h b = b @ sha1_Sum h"

definition Hash_Reset :: "Hash \<Rightarrow> Hash" where
  "Hash_Reset h = []"

definition BlockSize :: nat where
  "BlockSize = 64"

section \<open>Package \<^verbatim>\<open>crypto/hmac\<close>\<close>

record hmac =
  opad :: string
  ipad :: string
  outer :: Hash
  inner :: Hash

text \<open>\<^verbatim>\<open>copy(dst, key)\<close> into a slice of \<open>n\<close> zero bytes, for a key of at most \<open>n\<close> bytes.\<close>

definition copy_into_zeros :: "nat \<Rightarrow> string \<Rightarrow> string" where
  "copy_into_zeros n key = take n key @ replicate (n - length key) (CHR 0x00)"

definition xor_bytes :: "int \<Rightarrow> string \<Rightarrow> string" where
  "xor_bytes v p = map (\<lambda>c. char_of (byte c XOR v)) p"

definition hmac_New :: "string \<Rightarrow> hmac" where
  "hmac_New key =
     (let outer = sha1_New;
          inner = sha1_New;
          blocksize = BlockSize;
          (outer, key) =
            (if length key > blocksize
             then (Hash_Write outer key, Hash_Sum (Hash_Write outer key) [])
             else (outer, key));
          ipad = xor_bytes 0x36 (copy_into_zeros blocksize key);
          opad = xor_bytes 0x5c (copy_into_zeros blocksize key);
          inner = Hash_Write inner ipad
      in \<lparr>opad = opad, ipad = ipad, outer = outer, inner = inner\<rparr>)"

definition hmac_Write :: "hmac \<Rightarrow> string \<Rightarrow> hmac" where
  "hmac_Write h p = h\<lparr>inner := Hash_Write (inner h) p\<rparr>"

text \<open>\<^verbatim>\<open>Sum\<close> returns the bytes; the state of the outer hash it leaves is not used again.\<close>

definition hmac_Sum :: "hmac \<Rightarrow> string \<Rightarrow> string" where
  "hmac_Sum h b =
     (let origLen = length b;
          b = Hash_Sum (inner h) b;
          outer = Hash_Reset (outer h);
          outer = Hash_Write outer (opad h);
          outer = Hash_Write outer (drop origLen b)
      in Hash_Sum outer (take origLen b))"

section \<open>The signer\<close>

definition PostPresignSignatureV1 :: "string \<Rightarrow> string \<Rightarrow> string" where
  "PostPresignSignatureV1 policyBase64 secretAccessKey =
     (let hm = hmac_New secretAccessKey;
          hm = hmac_Write hm policyBase64;
          signature = EncodeToString (hmac_Sum hm [])
      in signature)"

section \<open>The POST policy\<close>

text \<open>\<^verbatim>\<open>errors.go\<close>: an \<^verbatim>\<open>InvalidArgumentError\<close> carries its message; \<^verbatim>\<open>errors.New\<close> of the
  standard library makes a plain error.\<close>

datatype error = InvalidArgumentError string | PlainError string

definition NewInvalidArgumentError :: "string \<Rightarrow> error" where
  "NewInvalidArgumentError message = InvalidArgumentError message"

text \<open>The constant \<^verbatim>\<open>expirationDateFormat\<close>.\<close>

definition expirationDateFormat :: string where
  "expirationDateFormat = ''2006-01-02T15:04:05.999Z''"

text \<open>The struct \<^verbatim>\<open>policyCondition\<close>; its field \<^verbatim>\<open>value\<close> is \<open>cvalue\<close> here.\<close>

record policyCondition =
  matchType :: string
  condition :: string
  cvalue :: string

text \<open>The anonymous struct of \<^verbatim>\<open>contentLengthRange\<close>, with its fields \<^verbatim>\<open>min\<close> and \<^verbatim>\<open>max\<close>.\<close>

record lengthRange =
  minLen :: int64
  maxLen :: int64

record PostPolicy =
  expiration :: Time
  conditions :: "policyCondition list"
  contentLengthRange :: lengthRange
  formData :: "string \<rightharpoonup> string"

definition NewPostPolicy :: PostPolicy where
  "NewPostPolicy =
     \<lparr>expiration = zeroTime, conditions = [],
      contentLengthRange = \<lparr>minLen = 0, maxLen = 0\<rparr>, formData = Map.empty\<rparr>"

text \<open>
  The methods on \<^verbatim>\<open>*PostPolicy\<close> change the policy in place and return an error or
  \<^verbatim>\<open>nil\<close>. Each is a function from the policy before the call to the policy after it and
  the error, \<open>None\<close> for \<^verbatim>\<open>nil\<close>.
\<close>

definition addNewPolicy :: "policyCondition \<Rightarrow> PostPolicy \<Rightarrow> PostPolicy \<times> error option" where
  "addNewPolicy policyCond p =
     (if matchType policyCond = [] \<or> condition policyCond = [] \<or> cvalue policyCond = []
      then (p, Some (NewInvalidArgumentError ''policy fields are empty''))
      else (p\<lparr>conditions := conditions p @ [policyCond]\<rparr>, None))"

definition SetExpires :: "Time \<Rightarrow> PostPolicy \<Rightarrow> PostPolicy \<times> error option" where
  "SetExpires t p =
     (if IsZero t then (p, Some (NewInvalidArgumentError ''no expiry time set''))
      else (p\<lparr>expiration := t\<rparr>, None))"

definition SetKey :: "string \<Rightarrow> PostPolicy \<Rightarrow> PostPolicy \<times> error option" where
  "SetKey key p =
     (if TrimSpace key = [] \<or> key = []
      then (p, Some (NewInvalidArgumentError ''object name is empty''))
      else
        let policyCond = \<lparr>matchType = ''eq'', condition = ''$key'', cvalue = key\<rparr> in
        case addNewPolicy policyCond p of
          (p, Some err) \<Rightarrow> (p, Some err)
        | (p, None) \<Rightarrow> (p\<lparr>formData := (formData p)(''key'' \<mapsto> key)\<rparr>, None))"

definition SetKeyStartsWith :: "string \<Rightarrow> PostPolicy \<Rightarrow> PostPolicy \<times> error option" where
  "SetKeyStartsWith keyStartsWith p =
     (if TrimSpace keyStartsWith = [] \<or> keyStartsWith = []
      then (p, Some (NewInvalidArgumentError ''object prefix is empty''))
      else
        let policyCond = \<lparr>matchType = ''starts-with'', condition = ''$key'', cvalue = keyStartsWith\<rparr> in
        case addNewPolicy policyCond p of
          (p, Some err) \<Rightarrow> (p, Some err)
        | (p, None) \<Rightarrow> (p\<lparr>formData := (formData p)(''key'' \<mapsto> keyStartsWith)\<rparr>, None))"

definition SetBucket :: "string \<Rightarrow> PostPolicy \<Rightarrow> PostPolicy \<times> error option" where
  "SetBucket bucketName p =
     (if TrimSpace bucketName = [] \<or> bucketName = []
      then (p, Some (NewInvalidArgumentError ''bucket name is empty''))
      else
        let policyCond = \<lparr>matchType = ''eq'', condition = ''$bucket'', cvalue = bucketName\<rparr> in
        case addNewPolicy policyCond p of
          (p, Some err) \<Rightarrow> (p, Some err)
        | (p, None) \<Rightarrow> (p\<lparr>formData := (formData p)(''bucket'' \<mapsto> bucketName)\<rparr>, None))"

definition SetContentType :: "string \<Rightarrow> PostPolicy \<Rightarrow> PostPolicy \<times> error option" where
  "SetContentType contentType p =
     (if TrimSpace contentType = [] \<or> contentType = []
      then (p, Some (NewInvalidArgumentError ''no content type specified''))
      else
        let policyCond = \<lparr>matchType = ''eq'', condition = ''$Content-Type'', cvalue = contentType\<rparr> in
        case addNewPolicy policyCond p of
          (p, Some err) \<Rightarrow> (p, Some err)
        | (p, None) \<Rightarrow> (p\<lparr>formData := (formData p)(''Content-Type'' \<mapsto> contentType)\<rparr>, None))"

definition SetContentLengthRange :: "int64 \<Rightarrow> int64 \<Rightarrow> PostPolicy \<Rightarrow> PostPolicy \<times> error option" where
  "SetContentLengthRange mn mx p =
     (if mx <s mn
      then (p, Some (NewInvalidArgumentError ''minimum limit is larger than maximum limit''))
      else if mn <s 0
      then (p, Some (NewInvalidArgumentError ''minimum limit cannot be negative''))
      else if mx <s 0
      then (p, Some (NewInvalidArgumentError ''maximum limit cannot be negative''))
      else (p\<lparr>contentLengthRange := \<lparr>minLen = mn, maxLen = mx\<rparr>\<rparr>, None))"

definition SetSuccessStatusAction :: "string \<Rightarrow> PostPolicy \<Rightarrow> PostPolicy \<times> error option" where
  "SetSuccessStatusAction status p =
     (if TrimSpace status = [] \<or> status = []
      then (p, Some (NewInvalidArgumentError ''status is empty''))
      else
        let policyCond = \<lparr>matchType = ''eq'', condition = ''$success_action_status'', cvalue = status\<rparr> in
        case addNewPolicy policyCond p of
          (p, Some err) \<Rightarrow> (p, Some err)
        | (p, None) \<Rightarrow> (p\<lparr>formData := (formData p)(''success_action_status'' \<mapsto> status)\<rparr>, None))"

text \<open>
  The loop of \<^verbatim>\<open>marshalJSON\<close> over the conditions. \<open>insertComma\<close> is the flag of the
  source, which the loop reads and never sets.
\<close>

fun marshalConditions :: "bool \<Rightarrow> string \<Rightarrow> policyCondition list \<Rightarrow> string" where
  "marshalConditions insertComma buf [] = buf"
| "marshalConditions insertComma buf (po # pos) =
     (let buf = (if insertComma then buf @ '','' else buf);
          buf = buf @ [CHR ''['', CHR 0x22];
          buf = buf @ matchType po;
          buf = buf @ [CHR 0x22, CHR '','', CHR 0x22];
          buf = safeAppendString buf (condition po);
          buf = buf @ [CHR 0x22, CHR '','', CHR 0x22];
          buf = safeAppendString buf (cvalue po);
          buf = buf @ [CHR 0x22, CHR '']'']
      in marshalConditions insertComma buf pos)"

definition marshalJSON :: "PostPolicy \<Rightarrow> string" where
  \<open>marshalJSON p =
     (let buf = [];
          buf = buf @ ''{"expiration":"'';
          buf = AppendFormat buf (expiration p) expirationDateFormat;
          buf = buf @ ''","conditions":['';
          insertComma = False;
          (buf, insertComma) =
            (if minLen (contentLengthRange p) \<noteq> 0 \<or> maxLen (contentLengthRange p) \<noteq> 0 then
               let buf = buf @ ''["content-length-range",'';
                   buf = AppendInt buf (minLen (contentLengthRange p));
                   buf = buf @ '','';
                   buf = AppendInt buf (maxLen (contentLengthRange p));
                   buf = buf @ '']''
               in (buf, True)
             else (buf, insertComma));
          buf = marshalConditions insertComma buf (conditions p);
          buf = buf @ '']}''
      in buf)\<close>

definition String :: "PostPolicy \<Rightarrow> string" where
  "String p = marshalJSON p"

section \<open>Sequences of setter calls\<close>

text \<open>
  A caller of the package reaches a policy by \<^verbatim>\<open>NewPostPolicy\<close> followed by calls of the
  exported setters. \<open>call\<close> names one such call with its arguments, \<open>apply_call\<close> makes it,
  and \<open>run\<close> makes a sequence of calls in order as long as each succeeds: it returns the
  final policy, or \<open>None\<close> when some call returned an error.
\<close>

datatype call =
    CallSetExpires Time
  | CallSetKey string
  | CallSetKeyStartsWith string
  | CallSetBucket string
  | CallSetContentType string
  | CallSetContentLengthRange int64 int64
  | CallSetSuccessStatusAction string

fun apply_call :: "call \<Rightarrow> PostPolicy \<Rightarrow> PostPolicy \<times> error option" where
  "apply_call (CallSetExpires t) p = SetExpires t p"
| "apply_call (CallSetKey key) p = SetKey key p"
| "apply_call (CallSetKeyStartsWith keyStartsWith) p = SetKeyStartsWith keyStartsWith p"
| "apply_call (CallSetBucket bucketName) p = SetBucket bucketName p"
| "apply_call (CallSetContentType contentType) p = SetContentType contentType p"
| "apply_call (CallSetContentLengthRange mn mx) p = SetContentLengthRange mn mx p"
| "apply_call (CallSetSuccessStatusAction status) p = SetSuccessStatusAction status p"

fun run :: "call list \<Rightarrow> PostPolicy \<Rightarrow> PostPolicy option" where
  "run [] p = Some p"
| "run (c # cs) p =
     (case apply_call c p of
        (p', None) \<Rightarrow> run cs p'
      | (p', Some err) \<Rightarrow> None)"

subsection \<open>The escaping rule as the specification words it\<close>

definition hexdigit :: "int \<Rightarrow> char" where
  "hexdigit n = (if n < 10 then char_of (48 + n) else char_of (87 + n))"

definition continuation :: "int \<Rightarrow> bool" where
  "continuation b = (0x80 \<le> b \<and> b \<le> 0xBF)"

definition wellformed2 :: "string \<Rightarrow> bool" where
  "wellformed2 s =
     (2 \<le> length s \<and> 0xC2 \<le> byte (s ! 0) \<and> byte (s ! 0) \<le> 0xDF \<and> continuation (byte (s ! 1)))"

definition wellformed3 :: "string \<Rightarrow> bool" where
  "wellformed3 s =
     (3 \<le> length s \<and>
      (byte (s ! 0) = 0xE0 \<and> 0xA0 \<le> byte (s ! 1) \<and> byte (s ! 1) \<le> 0xBF
       \<or> 0xE1 \<le> byte (s ! 0) \<and> byte (s ! 0) \<le> 0xEC \<and> continuation (byte (s ! 1))
       \<or> byte (s ! 0) = 0xED \<and> 0x80 \<le> byte (s ! 1) \<and> byte (s ! 1) \<le> 0x9F
       \<or> 0xEE \<le> byte (s ! 0) \<and> byte (s ! 0) \<le> 0xEF \<and> continuation (byte (s ! 1))) \<and>
      continuation (byte (s ! 2)))"

definition wellformed4 :: "string \<Rightarrow> bool" where
  "wellformed4 s =
     (4 \<le> length s \<and>
      (byte (s ! 0) = 0xF0 \<and> 0x90 \<le> byte (s ! 1) \<and> byte (s ! 1) \<le> 0xBF
       \<or> 0xF1 \<le> byte (s ! 0) \<and> byte (s ! 0) \<le> 0xF3 \<and> continuation (byte (s ! 1))
       \<or> byte (s ! 0) = 0xF4 \<and> 0x80 \<le> byte (s ! 1) \<and> byte (s ! 1) \<le> 0x8F) \<and>
      continuation (byte (s ! 2)) \<and> continuation (byte (s ! 3)))"

definition utf8_len :: "string \<Rightarrow> nat" where
  "utf8_len s =
     (if wellformed2 s then 2 else if wellformed3 s then 3 else if wellformed4 s then 4 else 0)"

lemma utf8_len_le: "utf8_len s \<le> length s"
  by (simp add: utf8_len_def wellformed2_def wellformed3_def wellformed4_def)

definition escape_ascii :: "char \<Rightarrow> string" where
  "escape_ascii b =
     (if b = CHR 0x5C \<or> b = CHR 0x22 then [CHR 0x5C, b]
      else if b = CHR 0x0A then [CHR 0x5C, CHR ''n'']
      else if b = CHR 0x0D then [CHR 0x5C, CHR ''r'']
      else if b = CHR 0x09 then [CHR 0x5C, CHR ''t'']
      else if byte b < 0x20 then
        [CHR 0x5C, CHR ''u'', CHR ''0'', CHR ''0'', hexdigit (byte b div 16), hexdigit (byte b mod 16)]
      else [b])"

function escape_spec :: "string \<Rightarrow> string" where
  "escape_spec [] = []"
| "escape_spec (b # bs) =
     (if byte b < 0x80 then escape_ascii b @ escape_spec bs
      else if utf8_len (b # bs) = 0 then
        [CHR 0x5C, CHR ''u'', CHR ''f'', CHR ''f'', CHR ''f'', CHR ''d''] @ escape_spec bs
      else take (utf8_len (b # bs)) (b # bs) @ escape_spec (drop (utf8_len (b # bs)) (b # bs)))"
  by pat_completeness auto
termination
  by (relation "measure length") auto

lemma hex_table: "list_all (\<lambda>k. hex ! k = hexdigit (int k)) [0..<16]"
  by code_simp

lemma hex_nth: "0 \<le> k \<Longrightarrow> k < 16 \<Longrightarrow> hex ! nat k = hexdigit k"
  using hex_table by (simp add: list_all_iff)

lemma and15: "(n::int) AND 0xF = n mod 16"
  using take_bit_eq_mask [of 4 n] by (simp add: take_bit_eq_mod mask_eq_exp_minus_1)

lemma byte_nat: "byte b = int (of_char b)"
  by (simp add: byte_def of_nat_of_char)

lemma byte_ge: "0 \<le> byte b"
  by (simp add: byte_nat)

lemma tryAddRuneSelf_high: "0x80 \<le> byte b \<Longrightarrow> tryAddRuneSelf buf b = (buf, False)"
  by (simp add: tryAddRuneSelf_def RuneSelf_def)

lemma tryAddRuneSelf_low:
  "byte b < 0x80 \<Longrightarrow> tryAddRuneSelf buf b = (buf @ escape_ascii b, True)"
  using byte_ge [of b]
  by (auto simp: tryAddRuneSelf_def escape_ascii_def RuneSelf_def drop_bit_eq_div and15 hex_nth
        pos_imp_zdiv_nonneg_iff byte_def)

lemma first_high:
  "0x80 \<le> b \<Longrightarrow> b < 256 \<Longrightarrow>
   first b = 0xF1 \<and> (b < 0xC2 \<or> 0xF5 \<le> b)
   \<or> first b = 0x02 \<and> 0xC2 \<le> b \<and> b \<le> 0xDF
   \<or> first b = 0x13 \<and> b = 0xE0
   \<or> first b = 0x03 \<and> (0xE1 \<le> b \<and> b \<le> 0xEC \<or> 0xEE \<le> b \<and> b \<le> 0xEF)
   \<or> first b = 0x23 \<and> b = 0xED
   \<or> first b = 0x34 \<and> b = 0xF0
   \<or> first b = 0x04 \<and> 0xF1 \<le> b \<and> b \<le> 0xF3
   \<or> first b = 0x44 \<and> b = 0xF4"
  unfolding first_def by auto

lemma bits:
  "(0xF1::int) AND 1 = 1" "(0xF1::int) AND 7 = 1"
  "(0x02::int) AND 7 = 2" "drop_bit 4 (0x02::int) = 0"
  "(0x13::int) AND 7 = 3" "drop_bit 4 (0x13::int) = 1"
  "(0x03::int) AND 7 = 3" "drop_bit 4 (0x03::int) = 0"
  "(0x23::int) AND 7 = 3" "drop_bit 4 (0x23::int) = 2"
  "(0x34::int) AND 7 = 4" "drop_bit 4 (0x34::int) = 3"
  "(0x04::int) AND 7 = 4" "drop_bit 4 (0x04::int) = 0"
  "(0x44::int) AND 7 = 4" "drop_bit 4 (0x44::int) = 4"
  by (simp_all add: drop_bit_eq_div)

lemma byte_lt: "byte b < 256"
  by (simp add: byte_nat)

lemmas wf_defs = utf8_len_def wellformed2_def wellformed3_def wellformed4_def continuation_def



lemma Decode_xx:
  "first (byte b) = 0xF1 \<Longrightarrow> DecodeRuneInString (b # bs) = (RuneError, 1)"
  by (simp add: DecodeRuneInString_def Let_def bits)

lemma Decode_row2:
  "first (byte b) = 0x02 \<Longrightarrow>
   snd (DecodeRuneInString (b # bs)) = (if 1 \<le> length bs \<and> continuation (byte (bs ! 0)) then 2 else 1)
   \<and> (\<not> (1 \<le> length bs \<and> continuation (byte (bs ! 0)))
        \<longrightarrow> fst (DecodeRuneInString (b # bs)) = RuneError)"
  by (simp add: DecodeRuneInString_def Let_def bits acceptRanges_def continuation_def Suc_le_eq)

lemma Decode_row3:
  "first (byte b) = x \<Longrightarrow> x < 0xF0 \<Longrightarrow> x AND 7 = 3 \<Longrightarrow> acceptRanges (drop_bit 4 x) = (lo, hi) \<Longrightarrow>
   snd (DecodeRuneInString (b # bs)) =
     (if 2 \<le> length bs \<and> lo \<le> byte (bs ! 0) \<and> byte (bs ! 0) \<le> hi \<and> continuation (byte (bs ! 1))
      then 3 else 1)
   \<and> (\<not> (2 \<le> length bs \<and> lo \<le> byte (bs ! 0) \<and> byte (bs ! 0) \<le> hi \<and> continuation (byte (bs ! 1)))
        \<longrightarrow> fst (DecodeRuneInString (b # bs)) = RuneError)"
  by (simp add: DecodeRuneInString_def Let_def continuation_def)

lemma Decode_row4:
  "first (byte b) = x \<Longrightarrow> x < 0xF0 \<Longrightarrow> x AND 7 = 4 \<Longrightarrow> acceptRanges (drop_bit 4 x) = (lo, hi) \<Longrightarrow>
   snd (DecodeRuneInString (b # bs)) =
     (if 3 \<le> length bs \<and> lo \<le> byte (bs ! 0) \<and> byte (bs ! 0) \<le> hi
         \<and> continuation (byte (bs ! 1)) \<and> continuation (byte (bs ! 2))
      then 4 else 1)
   \<and> (\<not> (3 \<le> length bs \<and> lo \<le> byte (bs ! 0) \<and> byte (bs ! 0) \<le> hi
         \<and> continuation (byte (bs ! 1)) \<and> continuation (byte (bs ! 2)))
        \<longrightarrow> fst (DecodeRuneInString (b # bs)) = RuneError)"
  by (simp add: DecodeRuneInString_def Let_def continuation_def)

lemma Decode_spec:
  assumes "0x80 \<le> byte b"
  shows "snd (DecodeRuneInString (b # bs)) = (if utf8_len (b # bs) = 0 then 1 else utf8_len (b # bs))
         \<and> (utf8_len (b # bs) = 0 \<longrightarrow> fst (DecodeRuneInString (b # bs)) = RuneError)"
proof -
  let ?x = "byte b"
  from assms byte_lt [of b]
  consider "?x < 0xC2" | "0xF5 \<le> ?x"
    | "0xC2 \<le> ?x" "?x \<le> 0xDF"
    | "?x = 0xE0" | "0xE1 \<le> ?x" "?x \<le> 0xEC" | "?x = 0xED" | "0xEE \<le> ?x" "?x \<le> 0xEF"
    | "?x = 0xF0" | "0xF1 \<le> ?x" "?x \<le> 0xF3" | "?x = 0xF4"
    by linarith
  then show ?thesis
  proof cases
    case 1
    with assms have "first ?x = 0xF1" and "utf8_len (b # bs) = 0"
      by (simp_all add: first_def wf_defs)
    then show ?thesis by (simp add: Decode_xx)
  next
    case 2
    then have "first ?x = 0xF1" and "utf8_len (b # bs) = 0"
      by (simp_all add: first_def wf_defs)
    then show ?thesis by (simp add: Decode_xx)
  next
    case 3
    then have "first ?x = 0x02"
      and "utf8_len (b # bs) = (if 1 \<le> length bs \<and> continuation (byte (bs ! 0)) then 2 else 0)"
      by (simp_all add: first_def wf_defs)
    then show ?thesis using Decode_row2 [of b bs] by simp
  next
    case 4
    then have f: "first ?x = 0x13"
      and u: "utf8_len (b # bs) = (if 2 \<le> length bs \<and> 0xA0 \<le> byte (bs ! 0) \<and> byte (bs ! 0) \<le> 0xBF
              \<and> continuation (byte (bs ! 1)) then 3 else 0)"
      by (simp_all add: first_def wf_defs)
    have "acceptRanges (drop_bit 4 (0x13::int)) = (0xA0, 0xBF)" "(0x13::int) AND 7 = 3"
      by (simp_all add: acceptRanges_def bits)
    from Decode_row3 [OF f _ this(2) this(1), of bs] u show ?thesis by simp
  next
    case 5
    then have f: "first ?x = 0x03"
      and u: "utf8_len (b # bs) = (if 2 \<le> length bs \<and> 0x80 \<le> byte (bs ! 0) \<and> byte (bs ! 0) \<le> 0xBF
              \<and> continuation (byte (bs ! 1)) then 3 else 0)"
      by (simp_all add: first_def wf_defs)
    have "acceptRanges (drop_bit 4 (0x03::int)) = (0x80, 0xBF)" "(0x03::int) AND 7 = 3"
      by (simp_all add: acceptRanges_def bits)
    from Decode_row3 [OF f _ this(2) this(1), of bs] u show ?thesis by simp
  next
    case 6
    then have f: "first ?x = 0x23"
      and u: "utf8_len (b # bs) = (if 2 \<le> length bs \<and> 0x80 \<le> byte (bs ! 0) \<and> byte (bs ! 0) \<le> 0x9F
              \<and> continuation (byte (bs ! 1)) then 3 else 0)"
      by (simp_all add: first_def wf_defs)
    have "acceptRanges (drop_bit 4 (0x23::int)) = (0x80, 0x9F)" "(0x23::int) AND 7 = 3"
      by (simp_all add: acceptRanges_def bits)
    from Decode_row3 [OF f _ this(2) this(1), of bs] u show ?thesis by simp
  next
    case 7
    then have f: "first ?x = 0x03"
      and u: "utf8_len (b # bs) = (if 2 \<le> length bs \<and> 0x80 \<le> byte (bs ! 0) \<and> byte (bs ! 0) \<le> 0xBF
              \<and> continuation (byte (bs ! 1)) then 3 else 0)"
      by (simp_all add: first_def wf_defs)
    have "acceptRanges (drop_bit 4 (0x03::int)) = (0x80, 0xBF)" "(0x03::int) AND 7 = 3"
      by (simp_all add: acceptRanges_def bits)
    from Decode_row3 [OF f _ this(2) this(1), of bs] u show ?thesis by simp
  next
    case 8
    then have f: "first ?x = 0x34"
      and u: "utf8_len (b # bs) = (if 3 \<le> length bs \<and> 0x90 \<le> byte (bs ! 0) \<and> byte (bs ! 0) \<le> 0xBF
              \<and> continuation (byte (bs ! 1)) \<and> continuation (byte (bs ! 2)) then 4 else 0)"
      by (simp_all add: first_def wf_defs)
    have "acceptRanges (drop_bit 4 (0x34::int)) = (0x90, 0xBF)" "(0x34::int) AND 7 = 4"
      by (simp_all add: acceptRanges_def bits)
    from Decode_row4 [OF f _ this(2) this(1), of bs] u show ?thesis by simp
  next
    case 9
    then have f: "first ?x = 0x04"
      and u: "utf8_len (b # bs) = (if 3 \<le> length bs \<and> 0x80 \<le> byte (bs ! 0) \<and> byte (bs ! 0) \<le> 0xBF
              \<and> continuation (byte (bs ! 1)) \<and> continuation (byte (bs ! 2)) then 4 else 0)"
      by (simp_all add: first_def wf_defs)
    have "acceptRanges (drop_bit 4 (0x04::int)) = (0x80, 0xBF)" "(0x04::int) AND 7 = 4"
      by (simp_all add: acceptRanges_def bits)
    from Decode_row4 [OF f _ this(2) this(1), of bs] u show ?thesis by simp
  next
    case 10
    then have f: "first ?x = 0x44"
      and u: "utf8_len (b # bs) = (if 3 \<le> length bs \<and> 0x80 \<le> byte (bs ! 0) \<and> byte (bs ! 0) \<le> 0x8F
              \<and> continuation (byte (bs ! 1)) \<and> continuation (byte (bs ! 2)) then 4 else 0)"
      by (simp_all add: first_def wf_defs)
    have "acceptRanges (drop_bit 4 (0x44::int)) = (0x80, 0x8F)" "(0x44::int) AND 7 = 4"
      by (simp_all add: acceptRanges_def bits)
    from Decode_row4 [OF f _ this(2) this(1), of bs] u show ?thesis by simp
  qed
qed



lemma safeAppendString_loop_spec:
  "i \<le> length s \<Longrightarrow> safeAppendString_loop buf s i = buf @ escape_spec (drop i s)"
proof (induction buf s i rule: safeAppendString_loop.induct)
  case (1 buf s i)
  show ?case
  proof (cases "i < length s")
    case False
    with "1.prems" show ?thesis
      by (subst safeAppendString_loop.simps) simp
  next
    case True
    define b where "b = s ! i"
    define bs where "bs = drop (Suc i) s"
    from True have d: "drop i s = b # bs"
      by (simp add: b_def bs_def Cons_nth_drop_Suc)
    show ?thesis
    proof (cases "byte b < 0x80")
      case low: True
      then have t: "tryAddRuneSelf buf b = (buf @ escape_ascii b, True)"
        by (rule tryAddRuneSelf_low)
      from "1.IH"(1) [OF True] t True
      have "safeAppendString_loop (buf @ escape_ascii b) s (i + 1)
              = (buf @ escape_ascii b) @ escape_spec (drop (i + 1) s)"
        by (simp add: b_def)
      with True t low d show ?thesis
        by (subst safeAppendString_loop.simps) (simp add: b_def [symmetric] bs_def)
    next
      case high: False
      then have t: "tryAddRuneSelf buf b = (buf, False)"
        by (simp add: tryAddRuneSelf_high)
      from high have dec:
        "snd (DecodeRuneInString (drop i s)) = (if utf8_len (b # bs) = 0 then 1 else utf8_len (b # bs))"
        "utf8_len (b # bs) = 0 \<longrightarrow> fst (DecodeRuneInString (drop i s)) = RuneError"
        using Decode_spec [of b bs] by (simp_all add: d)
      show ?thesis
      proof (cases "utf8_len (b # bs) = 0")
        case bad: True
        with dec have dr: "DecodeRuneInString (drop i s) = (RuneError, 1)"
          by (simp add: prod_eq_iff)
        from "1.IH"(2) [OF True _ refl refl refl] t dr
        have "safeAppendString_loop (buf @ [CHR 0x5C, CHR ''u'', CHR ''f'', CHR ''f'', CHR ''f'', CHR ''d'']) s (i + 1)
                = (buf @ [CHR 0x5C, CHR ''u'', CHR ''f'', CHR ''f'', CHR ''f'', CHR ''d'']) @ escape_spec (drop (i + 1) s)"
          using True by (simp add: b_def [symmetric] tryAppendRuneError_def)
        with True t high d bad dr show ?thesis
          by (subst safeAppendString_loop.simps)
             (simp add: b_def [symmetric] bs_def [symmetric] tryAppendRuneError_def)
      next
        case good: False
        define w where "w = utf8_len (b # bs)"
        from good dec have dw: "snd (DecodeRuneInString (drop i s)) = w"
          by (simp add: w_def)
        from good have w2: "w \<noteq> 1" "w \<noteq> 0"
          by (auto simp: w_def utf8_len_def split: if_splits)
        from utf8_len_le [of "b # bs"] have "w \<le> length (drop i s)"
          by (simp add: w_def d)
        with True have wl: "i + w \<le> length s"
          by simp
        from "1.IH"(3) [OF True _ refl refl refl] t dw w2 wl
        have "safeAppendString_loop (buf @ take w (drop i s)) s (i + w)
                = (buf @ take w (drop i s)) @ escape_spec (drop (i + w) s)"
          by (simp add: b_def [symmetric] tryAppendRuneError_def)
        moreover have "drop (i + w) s = drop w (b # bs)"
          by (simp add: d [symmetric] add.commute)
        ultimately show ?thesis using True t high d good dw w2
          by (subst safeAppendString_loop.simps)
             (simp add: b_def [symmetric] w_def [symmetric] tryAppendRuneError_def Let_def)
      qed
    qed
  qed
qed

text \<open>
  C1. For every buffer and every string (a condition or a value field), \<^verbatim>\<open>safeAppendString\<close>
  appends exactly the escaped form the specification describes: backslash and double quote
  get a leading backslash; newline, carriage return and tab become \<^verbatim>\<open>\n\<close>, \<^verbatim>\<open>\r\<close>, \<^verbatim>\<open>\t\<close>;
  any other byte below 0x20 becomes \<^verbatim>\<open>\u00XX\<close> in lowercase hex; every byte that does not
  start a well-formed UTF-8 sequence becomes \<^verbatim>\<open>\ufffd\<close>; all other bytes, well-formed
  multi-byte sequences included, are copied unchanged.
\<close>

theorem C1_safeAppendString_escapes:
  "safeAppendString buf s = buf @ escape_spec s"
  by (simp add: safeAppendString_def safeAppendString_loop_spec)

theorem C1_safeAppendString_escapes_witness:
  \<open>safeAppendString ''["'' (''a"<>&'' @ [CHR 0x5C, CHR 0x0A, CHR 0x1F, CHR 0xE2, CHR 0x82, CHR 0xAC, CHR 0xFF])
     = ''["a'' @ [CHR 0x5C] @ ''"<>&'' @ [CHR 0x5C, CHR 0x5C, CHR 0x5C] @ ''n'' @ [CHR 0x5C] @ ''u001f''
         @ [CHR 0xE2, CHR 0x82, CHR 0xAC, CHR 0x5C] @ ''ufffd''\<close>
proof -
  have \<open>escape_spec (''a"<>&'' @ [CHR 0x5C, CHR 0x0A, CHR 0x1F, CHR 0xE2, CHR 0x82, CHR 0xAC, CHR 0xFF])
     = ''a'' @ [CHR 0x5C] @ ''"<>&'' @ [CHR 0x5C, CHR 0x5C, CHR 0x5C] @ ''n'' @ [CHR 0x5C] @ ''u001f''
         @ [CHR 0xE2, CHR 0x82, CHR 0xAC, CHR 0x5C] @ ''ufffd''\<close>
    by code_simp
  then show ?thesis
    by (simp add: C1_safeAppendString_escapes)
qed

end
